theory Spec2Isabelle
  imports Main
begin

section \<open>The health endpoint of the Backend Case Study API\<close>

text \<open>
  The repository's source is one module, \<^verbatim>\<open>src/routes.py\<close>:
  \<^verbatim>\<open>
  from flask import Blueprint

  api_routes = Blueprint("api", __name__)

  @api_routes.route("/health")
  def health_check():
      return {"status": "Backend Case Study API Running"}
  \<close>
  The module builds a blueprint, records one URL rule on it and defines the view function of
  that rule. Everything else a request meets (the default methods of a rule, the matching of a
  path, the conversion of the view's return value into a response, the answers to requests that
  match no rule) is the behaviour of the Flask framework that the module calls. The first
  subsections model the part of that behaviour the module relies on; the subsection on \<^verbatim>\<open>routes.py\<close> is the module itself.
\<close>

subsection \<open>Python values, exceptions and view functions\<close>

text \<open>The values a view function of this module can return, and the JSON documents they
  serialise to. A dictionary keeps its insertion order, so it is an association list.\<close>

datatype pyval = PyNone | PyStr string | PyDict "(string \<times> pyval) list"

datatype json = JNull | JString string | JObject "(string \<times> json) list"

text \<open>A call of a Python function either returns a value or raises.\<close>

datatype exn = Abort nat | Raised string

text \<open>A view function runs against the state of the program \<open>'s\<close> (the module globals, the
  heap, the trace of input and output) and hands back the state it leaves behind.\<close>

type_synonym 's view = "'s \<Rightarrow> (exn + pyval) \<times> 's"

record 's pyfunc =
  fn_name :: string
  fn_call :: "'s view"

subsection \<open>Requests and responses\<close>

text \<open>A request as the server hands it to the application: \<open>req_method\<close> and \<open>req_path\<close> are
  the method and the path as they were sent (\<^verbatim>\<open>REQUEST_METHOD\<close> and \<^verbatim>\<open>PATH_INFO\<close>).\<close>

record request =
  req_method :: string
  req_path :: string
  req_args :: "(string \<times> string) list"
  req_headers :: "(string \<times> string) list"
  req_body :: string

text \<open>The body of a JSON response is represented by the JSON document it carries: the white
  space of the serialisation depends on the configuration of the application.\<close>

datatype body = NoBody | HtmlBody string | JsonBody json

record response =
  status :: nat
  mimetype :: string
  allow :: "string list"
  body :: body

text \<open>What handling one request produced: the response, and the names of the view functions
  that were called on the way.\<close>

record outcome =
  resp :: response
  called :: "string list"

subsection \<open>The framework: blueprints and URL rules\<close>

text \<open>A blueprint records the rules added to it until it is registered on an application.
  \<open>rule_methods\<close> is the \<^verbatim>\<open>methods\<close> option of \<^verbatim>\<open>route\<close>; \<open>None\<close> when the caller
  passes none.\<close>

record 's deferred_rule =
  rule :: string
  rule_methods :: "string list option"
  view_func :: "'s pyfunc"

record 's blueprint =
  bp_name :: string
  import_name :: string
  deferred :: "'s deferred_rule list"

definition Blueprint :: "string \<Rightarrow> string \<Rightarrow> 's blueprint" where
  "Blueprint name imp = \<lparr>bp_name = name, import_name = imp, deferred = []\<rparr>"

text \<open>\<^verbatim>\<open>@bp.route(rule, **options)\<close> applied to a function: the rule is appended to the
  blueprint's record and the function itself is left as it is.\<close>

definition route :: "'s blueprint \<Rightarrow> string \<Rightarrow> string list option \<Rightarrow> 's pyfunc \<Rightarrow> 's blueprint" where
  "route bp r ms f =
     bp\<lparr>deferred := deferred bp @ [\<lparr>rule = r, rule_methods = ms, view_func = f\<rparr>]\<rparr>"

text \<open>A rule of the URL map of an application. Registering a blueprint with the framework's
  defaults (no URL prefix) adds each recorded rule under the endpoint
  \<^verbatim>\<open>blueprint.function\<close>. A rule registered without methods listens for \<^verbatim>\<open>GET\<close>;
  \<^verbatim>\<open>OPTIONS\<close> is added and answered by the framework unless the caller listed it, and a rule
  that listens for \<^verbatim>\<open>GET\<close> listens for \<^verbatim>\<open>HEAD\<close> as well.\<close>

record 's url_rule =
  ur_rule :: string
  ur_endpoint :: string
  ur_methods :: "string list"
  ur_automatic_options :: bool
  ur_view :: "'s pyfunc"

definition with_options :: "string list \<Rightarrow> string list" where
  "with_options ms = (if ''OPTIONS'' \<in> set ms then ms else ms @ [''OPTIONS''])"

definition with_head :: "string list \<Rightarrow> string list" where
  "with_head ms = (if ''GET'' \<in> set ms \<and> ''HEAD'' \<notin> set ms then ms @ [''HEAD''] else ms)"

definition add_url_rule :: "string \<Rightarrow> 's deferred_rule \<Rightarrow> 's url_rule" where
  "add_url_rule bpn d =
     (let ms = (case rule_methods d of None \<Rightarrow> [''GET''] | Some l \<Rightarrow> l) in
      \<lparr>ur_rule = rule d,
       ur_endpoint = bpn @ ''.'' @ fn_name (view_func d),
       ur_methods = with_head (with_options ms),
       ur_automatic_options = (''OPTIONS'' \<notin> set ms),
       ur_view = view_func d\<rparr>)"

definition register_blueprint :: "'s blueprint \<Rightarrow> 's url_rule list" where
  "register_blueprint bp = map (add_url_rule (bp_name bp)) (deferred bp)"

subsection \<open>The framework: matching and dispatch\<close>

text \<open>Before it matches, the framework normalises what was sent. The method is upper-cased
  (\<^verbatim>\<open>method.upper()\<close>; the letters of a method token are ASCII), so \<^verbatim>\<open>get\<close> is
  \<^verbatim>\<open>GET\<close>. The leading slashes of a path that is not empty are replaced by one slash
  (\<^verbatim>\<open>"/" + path_info.lstrip("/")\<close>), so \<^verbatim>\<open>//health\<close> and \<^verbatim>\<open>health\<close> are
  \<^verbatim>\<open>/health\<close>.\<close>

definition upper_char :: "char \<Rightarrow> char" where
  "upper_char c =
     (case map_of (zip ''abcdefghijklmnopqrstuvwxyz'' ''ABCDEFGHIJKLMNOPQRSTUVWXYZ'') c of
        Some d \<Rightarrow> d
      | None \<Rightarrow> c)"

definition upper :: "string \<Rightarrow> string" where
  "upper m = map upper_char m"

definition path_part :: "string \<Rightarrow> string" where
  "path_part p = (if p = [] then [] else CHR ''/'' # dropWhile (\<lambda>c. c = CHR ''/'') p)"

text \<open>A rule without variable parts and without a trailing slash matches the normalised path
  that equals it. A path that matches some rule, but none for the request's method, is answered
  with 405 and the methods those rules allow; a path that matches no rule is answered with 404.
  \<open>rules_on\<close> and \<open>routed_methods\<close> take the normalised path. (The framework also answers
  with a redirect when a path matches a rule only after its repeated inner slashes are merged,
  or only after a trailing slash is added; neither can lead to a rule of one segment without a
  trailing slash, and neither is modelled.)\<close>

datatype 's matched = Found "'s url_rule" | MethodNotAllowed "string list" | NotFound

definition rules_on :: "'s url_rule list \<Rightarrow> string \<Rightarrow> 's url_rule list" where
  "rules_on m p = filter (\<lambda>u. ur_rule u = p) m"

definition routed_methods :: "'s url_rule list \<Rightarrow> string \<Rightarrow> string list" where
  "routed_methods m p = remdups (concat (map ur_methods (rules_on m p)))"

definition match_request :: "'s url_rule list \<Rightarrow> request \<Rightarrow> 's matched" where
  "match_request m r =
     (case find (\<lambda>u. upper (req_method r) \<in> set (ur_methods u))
             (rules_on m (path_part (req_path r))) of
        Some u \<Rightarrow> Found u
      | None \<Rightarrow> if rules_on m (path_part (req_path r)) = [] then NotFound
                else MethodNotAllowed (routed_methods m (path_part (req_path r))))"

primrec to_json :: "pyval \<Rightarrow> json" where
  "to_json PyNone = JNull"
| "to_json (PyStr s) = JString s"
| "to_json (PyDict kvs) = JObject (map (map_prod id to_json) kvs)"

definition error_response :: "nat \<Rightarrow> string list \<Rightarrow> response" where
  "error_response code ms =
     \<lparr>status = code, mimetype = ''text/html'', allow = ms, body = HtmlBody ''''\<rparr>"

text \<open>The return value of a view becomes a response: a dictionary is serialised as JSON, a
  string is an HTML page, and \<^verbatim>\<open>None\<close> is not a response (the framework raises a
  \<^verbatim>\<open>TypeError\<close>, answered with 500).\<close>

definition make_response :: "pyval \<Rightarrow> response" where
  "make_response v =
     (case v of
        PyDict kvs \<Rightarrow>
          \<lparr>status = 200, mimetype = ''application/json'', allow = [], body = JsonBody (to_json v)\<rparr>
      | PyStr s \<Rightarrow> \<lparr>status = 200, mimetype = ''text/html'', allow = [], body = HtmlBody s\<rparr>
      | PyNone \<Rightarrow> error_response 500 [])"

definition handle_exception :: "exn \<Rightarrow> response" where
  "handle_exception e = (case e of Abort code \<Rightarrow> error_response code [] | Raised msg \<Rightarrow> error_response 500 [])"

definition dispatch_request :: "'s url_rule list \<Rightarrow> request \<Rightarrow> 's \<Rightarrow> outcome \<times> 's" where
  "dispatch_request m r s =
     (case match_request m r of
        NotFound \<Rightarrow> (\<lparr>resp = error_response 404 [], called = []\<rparr>, s)
      | MethodNotAllowed ms \<Rightarrow> (\<lparr>resp = error_response 405 ms, called = []\<rparr>, s)
      | Found u \<Rightarrow>
          if ur_automatic_options u \<and> upper (req_method r) = ''OPTIONS''
          then (\<lparr>resp = \<lparr>status = 200, mimetype = ''text/html'', allow = ur_methods u,
                           body = NoBody\<rparr>,
                  called = []\<rparr>, s)
          else (case fn_call (ur_view u) s of
                  (Inr v, s') \<Rightarrow> (\<lparr>resp = make_response v, called = [fn_name (ur_view u)]\<rparr>, s')
                | (Inl e, s') \<Rightarrow>
                    (\<lparr>resp = handle_exception e, called = [fn_name (ur_view u)]\<rparr>, s')))"

text \<open>The answer to a \<^verbatim>\<open>HEAD\<close> request is sent without its body; the response object
  decides this on the method as it was sent.\<close>

definition handle_request :: "'s url_rule list \<Rightarrow> request \<Rightarrow> 's \<Rightarrow> outcome \<times> 's" where
  "handle_request m r s =
     (case dispatch_request m r s of
        (out, s') \<Rightarrow>
          (if req_method r = ''HEAD'' then out\<lparr>resp := (resp out)\<lparr>body := NoBody\<rparr>\<rparr> else out, s'))"

text \<open>A server answers the requests it receives one after the other, each against the state the
  one before left.\<close>

fun serve :: "'s url_rule list \<Rightarrow> request list \<Rightarrow> 's \<Rightarrow> outcome list \<times> 's" where
  "serve m [] s = ([], s)"
| "serve m (r # rs) s =
     (case handle_request m r s of
        (out, s') \<Rightarrow> (case serve m rs s' of (outs, s'') \<Rightarrow> (out # outs, s'')))"

subsection \<open>The module \<^verbatim>\<open>routes.py\<close>\<close>

text \<open>\<^verbatim>\<open>health_check\<close> takes no argument, reads nothing and returns a dictionary display with
  one key.\<close>

definition health_check :: "'s view" where
  "health_check s = (Inr (PyDict [(''status'', PyStr ''Backend Case Study API Running'')]), s)"

text \<open>\<^verbatim>\<open>api_routes\<close> after the module has been executed: the blueprint \<^verbatim>\<open>"api"\<close> with the
  rule the decorator recorded. \<open>nm\<close> is the module's \<^verbatim>\<open>__name__\<close>, which depends on how the
  module is imported.\<close>

definition api_routes :: "string \<Rightarrow> 's blueprint" where
  "api_routes nm =
     route (Blueprint ''api'' nm) ''/health'' None
       \<lparr>fn_name = ''health_check'', fn_call = health_check\<rparr>"

text \<open>The route table of the blueprint: the URL map its registration produces.\<close>

definition route_table :: "string \<Rightarrow> 's url_rule list" where
  "route_table nm = register_blueprint (api_routes nm)"

section \<open>Properties\<close>

subsection \<open>The route table\<close>

lemma route_table_eq:
  "route_table nm =
     [\<lparr>ur_rule = ''/health'', ur_endpoint = ''api.health_check'',
       ur_methods = [''GET'', ''OPTIONS'', ''HEAD''], ur_automatic_options = True,
       ur_view = \<lparr>fn_name = ''health_check'', fn_call = health_check\<rparr>\<rparr>]"
  by (simp add: route_table_def register_blueprint_def api_routes_def route_def Blueprint_def
      add_url_rule_def with_options_def with_head_def)

lemma routed_methods_route_table:
  "routed_methods (route_table nm) p =
     (if p = ''/health'' then [''GET'', ''OPTIONS'', ''HEAD''] else [])"
  by (simp add: route_table_eq routed_methods_def rules_on_def)

lemma upper_routed:
  "upper ''GET'' = ''GET''" "upper ''HEAD'' = ''HEAD''" "upper ''OPTIONS'' = ''OPTIONS''"
  by (simp_all add: upper_def upper_char_def)

lemma path_part_health:
  "path_part ''/health'' = ''/health''" "path_part ''/health/'' = ''/health/''"
  by (simp_all add: path_part_def)

lemma match_route_table:
  "match_request (route_table nm) r =
     (if path_part (req_path r) = ''/health''
      then (if upper (req_method r) \<in> set [''GET'', ''OPTIONS'', ''HEAD'']
            then Found \<lparr>ur_rule = ''/health'', ur_endpoint = ''api.health_check'',
                   ur_methods = [''GET'', ''OPTIONS'', ''HEAD''], ur_automatic_options = True,
                   ur_view = \<lparr>fn_name = ''health_check'', fn_call = health_check\<rparr>\<rparr>
            else MethodNotAllowed [''GET'', ''OPTIONS'', ''HEAD''])
      else NotFound)"
  by (simp add: route_table_eq match_request_def routed_methods_def rules_on_def)

lemma dispatch_route_table:
  "dispatch_request (route_table nm) r s =
     (if path_part (req_path r) \<noteq> ''/health''
      then (\<lparr>resp = error_response 404 [], called = []\<rparr>, s)
      else if upper (req_method r) = ''GET'' \<or> upper (req_method r) = ''HEAD''
      then (\<lparr>resp = \<lparr>status = 200, mimetype = ''application/json'', allow = [],
                  body = JsonBody (JObject [(''status'', JString ''Backend Case Study API Running'')])\<rparr>,
          called = [''health_check'']\<rparr>, s)
      else if upper (req_method r) = ''OPTIONS''
      then (\<lparr>resp = \<lparr>status = 200, mimetype = ''text/html'',
                allow = [''GET'', ''OPTIONS'', ''HEAD''], body = NoBody\<rparr>, called = []\<rparr>, s)
      else (\<lparr>resp = error_response 405 [''GET'', ''OPTIONS'', ''HEAD''], called = []\<rparr>, s))"
  by (auto simp add: dispatch_request_def match_route_table health_check_def make_response_def)

lemma handle_get_health:
  assumes "req_method r = ''GET''" and "req_path r = ''/health''"
  shows "handle_request (route_table nm) r s =
     (\<lparr>resp = \<lparr>status = 200, mimetype = ''application/json'', allow = [],
                body = JsonBody (JObject [(''status'', JString ''Backend Case Study API Running'')])\<rparr>,
        called = [''health_check'']\<rparr>, s)"
  using assms
  by (simp add: handle_request_def dispatch_route_table upper_routed path_part_health)

subsection \<open>Requests to the endpoint\<close>

text \<open>
  C1. Every \<^verbatim>\<open>GET\<close> request to \<^verbatim>\<open>/health\<close> is dispatched to \<^verbatim>\<open>health_check\<close>; the
  response has status 200 and its body is the JSON object with the single key
  \<^verbatim>\<open>status\<close> and the value \<^verbatim>\<open>Backend Case Study API Running\<close>.
\<close>

theorem health_get_ok:
  assumes "req_method r = ''GET''" and "req_path r = ''/health''"
  shows "called (fst (handle_request (route_table nm) r s)) = [''health_check'']
    \<and> status (resp (fst (handle_request (route_table nm) r s))) = 200
    \<and> body (resp (fst (handle_request (route_table nm) r s))) =
        JsonBody (JObject [(''status'', JString ''Backend Case Study API Running'')])"
  using assms by (simp add: handle_get_health)

theorem health_get_ok_witness:
  "called (fst (handle_request (route_table ''routes'')
      \<lparr>req_method = ''GET'', req_path = ''/health'', req_args = [], req_headers = [],
        req_body = []\<rparr> (0::nat))) = [''health_check'']
    \<and> status (resp (fst (handle_request (route_table ''routes'')
      \<lparr>req_method = ''GET'', req_path = ''/health'', req_args = [], req_headers = [],
        req_body = []\<rparr> (0::nat)))) = 200
    \<and> body (resp (fst (handle_request (route_table ''routes'')
      \<lparr>req_method = ''GET'', req_path = ''/health'', req_args = [], req_headers = [],
        req_body = []\<rparr> (0::nat)))) =
        JsonBody (JObject [(''status'', JString ''Backend Case Study API Running'')])"
  using health_get_ok [of "\<lparr>req_method = ''GET'', req_path = ''/health'', req_args = [], req_headers = [],
        req_body = []\<rparr>" "''routes''" "0::nat"]
  by simp

text \<open>
  C2. The claim is that every request whose path is not \<^verbatim>\<open>/health\<close>, or whose method is not
  routed for \<^verbatim>\<open>/health\<close>, is refused without a call of \<^verbatim>\<open>health_check\<close>. The
  framework matches the normalised request, so what holds is: a request whose path, with its
  leading slashes reduced to one, is not \<^verbatim>\<open>/health\<close>, or whose method, upper-cased, is not
  among the methods routed for \<^verbatim>\<open>/health\<close>, does not reach \<^verbatim>\<open>health_check\<close> and is
  answered with 404 (no rule on the path) or 405 (no rule on the path for the method).
\<close>

theorem other_requests_refused:
  assumes "path_part (req_path r) \<noteq> ''/health''
         \<or> upper (req_method r) \<notin> set (routed_methods (route_table nm) ''/health'')"
  shows "called (fst (handle_request (route_table nm) r s)) = []
    \<and> (status (resp (fst (handle_request (route_table nm) r s))) = 404
       \<or> status (resp (fst (handle_request (route_table nm) r s))) = 405)
    \<and> (status (resp (fst (handle_request (route_table nm) r s))) = 404)
        = (path_part (req_path r) \<noteq> ''/health'')"
  using assms
  by (auto simp add: handle_request_def dispatch_route_table routed_methods_route_table
      error_response_def)

theorem other_requests_refused_witness:
  "called (fst (handle_request (route_table ''routes'')
      \<lparr>req_method = ''POST'', req_path = ''/health'', req_args = [], req_headers = [],
        req_body = ''x''\<rparr> (0::nat))) = []
   \<and> status (resp (fst (handle_request (route_table ''routes'')
      \<lparr>req_method = ''POST'', req_path = ''/health'', req_args = [], req_headers = [],
        req_body = ''x''\<rparr> (0::nat)))) = 405
   \<and> called (fst (handle_request (route_table ''routes'')
      \<lparr>req_method = ''GET'', req_path = ''/status'', req_args = [], req_headers = [],
        req_body = []\<rparr> (0::nat))) = []
   \<and> status (resp (fst (handle_request (route_table ''routes'')
      \<lparr>req_method = ''GET'', req_path = ''/status'', req_args = [], req_headers = [],
        req_body = []\<rparr> (0::nat)))) = 404"
  using other_requests_refused [of "\<lparr>req_method = ''POST'', req_path = ''/health'',
      req_args = [], req_headers = [], req_body = ''x''\<rparr>" "''routes''" "0::nat"]
    other_requests_refused [of "\<lparr>req_method = ''GET'', req_path = ''/status'',
      req_args = [], req_headers = [], req_body = []\<rparr>" "''routes''" "0::nat"]
  by (auto simp add: routed_methods_route_table upper_def upper_char_def path_part_def)

text \<open>The claim as stated fails for a \<^verbatim>\<open>GET\<close> request to \<^verbatim>\<open>//health\<close>, whose path is not
  \<^verbatim>\<open>/health\<close>, and for a request to \<^verbatim>\<open>/health\<close> with the method \<^verbatim>\<open>get\<close>, which is not
  one of the methods of the rule: both run \<^verbatim>\<open>health_check\<close> and are answered with 200.\<close>

theorem double_slash_reaches_health_check:
  "req_path \<lparr>req_method = ''GET'', req_path = ''//health'', req_args = [], req_headers = [],
        req_body = []\<rparr> \<noteq> ''/health''
   \<and> fst (handle_request (route_table ''routes'')
      \<lparr>req_method = ''GET'', req_path = ''//health'', req_args = [], req_headers = [],
        req_body = []\<rparr> (0::nat)) =
      \<lparr>resp = \<lparr>status = 200, mimetype = ''application/json'', allow = [],
                body = JsonBody (JObject [(''status'', JString ''Backend Case Study API Running'')])\<rparr>,
        called = [''health_check'']\<rparr>
   \<and> ''get'' \<notin> set (routed_methods (route_table ''routes'' :: nat url_rule list) ''/health'')
   \<and> fst (handle_request (route_table ''routes'')
      \<lparr>req_method = ''get'', req_path = ''/health'', req_args = [], req_headers = [],
        req_body = []\<rparr> (0::nat)) =
      \<lparr>resp = \<lparr>status = 200, mimetype = ''application/json'', allow = [],
                body = JsonBody (JObject [(''status'', JString ''Backend Case Study API Running'')])\<rparr>,
        called = [''health_check'']\<rparr>"
  by (simp add: handle_request_def dispatch_route_table routed_methods_route_table
      upper_def upper_char_def path_part_def)

text \<open>
  C3. The claim is that the rule is bound for exactly the method \<^verbatim>\<open>GET\<close>, so that
  \<^verbatim>\<open>GET\<close> is the only method for which the route matches and \<^verbatim>\<open>health_check\<close> runs.
  The registration names no method, so the framework's defaults apply: the rule for
  \<^verbatim>\<open>/health\<close> listens for \<^verbatim>\<open>GET\<close>, \<^verbatim>\<open>OPTIONS\<close> and \<^verbatim>\<open>HEAD\<close>, and a request runs
  \<^verbatim>\<open>health_check\<close> exactly when its normalised path is \<^verbatim>\<open>/health\<close> and its method,
  upper-cased, is \<^verbatim>\<open>GET\<close> or \<^verbatim>\<open>HEAD\<close>.
\<close>

theorem health_check_methods:
  "map rule_methods (deferred (api_routes nm :: 's blueprint)) = [None]
   \<and> map ur_methods (route_table nm :: 's url_rule list) = [[''GET'', ''OPTIONS'', ''HEAD'']]
   \<and> (called (fst (handle_request (route_table nm) r (s :: 's))) = [''health_check''])
       = (path_part (req_path r) = ''/health''
          \<and> (upper (req_method r) = ''GET'' \<or> upper (req_method r) = ''HEAD''))"
proof -
  have a: "map rule_methods (deferred (api_routes nm :: 's blueprint)) = [None]"
    by (simp add: api_routes_def route_def Blueprint_def)
  have b: "map ur_methods (route_table nm :: 's url_rule list) = [[''GET'', ''OPTIONS'', ''HEAD'']]"
    by (simp add: route_table_eq)
  have c: "(called (fst (handle_request (route_table nm) r s)) = [''health_check''])
       = (path_part (req_path r) = ''/health''
          \<and> (upper (req_method r) = ''GET'' \<or> upper (req_method r) = ''HEAD''))"
    by (auto simp add: handle_request_def dispatch_route_table)
  from a b c show ?thesis by blast
qed

theorem health_check_methods_witness:
  "(called (fst (handle_request (route_table ''routes'')
      \<lparr>req_method = ''GET'', req_path = ''/health'', req_args = [], req_headers = [],
        req_body = []\<rparr> (0::nat))) = [''health_check''])
   \<and> (called (fst (handle_request (route_table ''routes'')
      \<lparr>req_method = ''head'', req_path = ''/health'', req_args = [], req_headers = [],
        req_body = []\<rparr> (0::nat))) = [''health_check''])
   \<and> (called (fst (handle_request (route_table ''routes'')
      \<lparr>req_method = ''DELETE'', req_path = ''/health'', req_args = [], req_headers = [],
        req_body = []\<rparr> (0::nat))) \<noteq> [''health_check''])"
  using health_check_methods [of "''routes''" "\<lparr>req_method = ''GET'', req_path = ''/health'',
      req_args = [], req_headers = [], req_body = []\<rparr>" "0::nat"]
    health_check_methods [of "''routes''" "\<lparr>req_method = ''head'', req_path = ''/health'',
      req_args = [], req_headers = [], req_body = []\<rparr>" "0::nat"]
    health_check_methods [of "''routes''" "\<lparr>req_method = ''DELETE'', req_path = ''/health'',
      req_args = [], req_headers = [], req_body = []\<rparr>" "0::nat"]
  by (simp add: upper_def upper_char_def path_part_def)

text \<open>The claim as stated fails for a \<^verbatim>\<open>HEAD\<close> request to \<^verbatim>\<open>/health\<close>: the method is
  not \<^verbatim>\<open>GET\<close>, it is routed, and \<^verbatim>\<open>health_check\<close> runs.\<close>

theorem head_invokes_health_check:
  "req_method \<lparr>req_method = ''HEAD'', req_path = ''/health'', req_args = [], req_headers = [],
        req_body = []\<rparr> \<noteq> ''GET''
   \<and> ''HEAD'' \<in> set (routed_methods (route_table ''routes'' :: nat url_rule list) ''/health'')
   \<and> fst (handle_request (route_table ''routes'')
      \<lparr>req_method = ''HEAD'', req_path = ''/health'', req_args = [], req_headers = [],
        req_body = []\<rparr> (0::nat)) =
      \<lparr>resp = \<lparr>status = 200, mimetype = ''application/json'', allow = [], body = NoBody\<rparr>,
              called = [''health_check'']\<rparr>"
  by (simp add: handle_request_def dispatch_route_table routed_methods_route_table
      upper_routed path_part_health)

text \<open>
  C4. The response to every \<^verbatim>\<open>GET\<close> request to \<^verbatim>\<open>/health\<close> has the content type
  \<^verbatim>\<open>application/json\<close>: its body is the JSON serialisation of the dictionary that
  \<^verbatim>\<open>health_check\<close> returns.
\<close>

theorem health_get_content_type:
  assumes "req_method r = ''GET''" and "req_path r = ''/health''"
  shows "mimetype (resp (fst (handle_request (route_table nm) r s))) = ''application/json''
    \<and> body (resp (fst (handle_request (route_table nm) r s))) =
        JsonBody (to_json (PyDict [(''status'', PyStr ''Backend Case Study API Running'')]))"
  using assms by (simp add: handle_get_health)

theorem health_get_content_type_witness:
  "mimetype (resp (fst (handle_request (route_table ''routes'')
      \<lparr>req_method = ''GET'', req_path = ''/health'', req_args = [(''verbose'', ''1'')],
        req_headers = [(''Accept'', ''text/html'')], req_body = []\<rparr> (7::nat))))
     = ''application/json''"
  using health_get_content_type [of "\<lparr>req_method = ''GET'', req_path = ''/health'',
      req_args = [(''verbose'', ''1'')], req_headers = [(''Accept'', ''text/html'')],
      req_body = []\<rparr>" "''routes''" "7::nat"]
  by simp

subsection \<open>Repeated requests and the request's data\<close>

lemma serve_get_health:
  assumes "list_all (\<lambda>r. req_method r = ''GET'' \<and> req_path r = ''/health'') rs"
  shows "serve (route_table nm) rs s =
     (replicate (length rs)
        \<lparr>resp = \<lparr>status = 200, mimetype = ''application/json'', allow = [],
                  body = JsonBody (JObject [(''status'', JString ''Backend Case Study API Running'')])\<rparr>,
          called = [''health_check'']\<rparr>, s)"
  using assms
proof (induction rs)
  case Nil
  show ?case by simp
next
  case (Cons r rs)
  from Cons.prems have r: "req_method r = ''GET''" "req_path r = ''/health''"
    and rest: "list_all (\<lambda>r. req_method r = ''GET'' \<and> req_path r = ''/health'') rs"
    by simp_all
  show ?case
    by (simp add: handle_get_health [OF r] Cons.IH [OF rest])
qed

text \<open>
  C5. The endpoint is idempotent: for every \<open>n\<close> and every sequence of \<open>n\<close> \<^verbatim>\<open>GET\<close>
  requests to \<^verbatim>\<open>/health\<close> served one after the other, every answer is the same as the
  first, and the state of the program after the sequence is the state before it.
\<close>

theorem health_idempotent:
  assumes "list_all (\<lambda>r. req_method r = ''GET'' \<and> req_path r = ''/health'') rs"
    and "length rs = n"
  shows "fst (serve (route_table nm) rs s) =
           replicate n
             \<lparr>resp = \<lparr>status = 200, mimetype = ''application/json'', allow = [],
                  body = JsonBody (JObject [(''status'', JString ''Backend Case Study API Running'')])\<rparr>,
          called = [''health_check'']\<rparr>
    \<and> (\<forall>i < n. fst (serve (route_table nm) rs s) ! i = fst (serve (route_table nm) rs s) ! 0)
    \<and> snd (serve (route_table nm) rs s) = s"
  using assms by (auto simp add: serve_get_health)

theorem health_idempotent_witness:
  "fst (serve (route_table ''routes'')
      [\<lparr>req_method = ''GET'', req_path = ''/health'', req_args = [], req_headers = [],
         req_body = []\<rparr>,
       \<lparr>req_method = ''GET'', req_path = ''/health'', req_args = [(''a'', ''b'')],
         req_headers = [], req_body = []\<rparr>,
       \<lparr>req_method = ''GET'', req_path = ''/health'', req_args = [],
         req_headers = [(''Accept'', ''*/*'')], req_body = ''ping''\<rparr>] (0::nat)) =
      replicate 3
        \<lparr>resp = \<lparr>status = 200, mimetype = ''application/json'', allow = [],
                  body = JsonBody (JObject [(''status'', JString ''Backend Case Study API Running'')])\<rparr>,
          called = [''health_check'']\<rparr>
   \<and> snd (serve (route_table ''routes'')
      [\<lparr>req_method = ''GET'', req_path = ''/health'', req_args = [], req_headers = [],
         req_body = []\<rparr>,
       \<lparr>req_method = ''GET'', req_path = ''/health'', req_args = [(''a'', ''b'')],
         req_headers = [], req_body = []\<rparr>,
       \<lparr>req_method = ''GET'', req_path = ''/health'', req_args = [],
         req_headers = [(''Accept'', ''*/*'')], req_body = ''ping''\<rparr>] (0::nat)) = 0"
  using health_idempotent [of
      "[\<lparr>req_method = ''GET'', req_path = ''/health'', req_args = [], req_headers = [],
         req_body = []\<rparr>,
       \<lparr>req_method = ''GET'', req_path = ''/health'', req_args = [(''a'', ''b'')],
         req_headers = [], req_body = []\<rparr>,
       \<lparr>req_method = ''GET'', req_path = ''/health'', req_args = [],
         req_headers = [(''Accept'', ''*/*'')], req_body = ''ping''\<rparr>]" 3 "''routes''" "0::nat"]
  by simp

text \<open>
  C6. The handler consumes no request data: two \<^verbatim>\<open>GET\<close> requests to \<^verbatim>\<open>/health\<close> get
  equal answers whatever their query parameters, headers and bodies are (and whatever the
  state of the program is), and \<^verbatim>\<open>health_check\<close> returns the same value in both runs.
\<close>

theorem health_ignores_request:
  assumes "req_method r1 = ''GET''" and "req_path r1 = ''/health''"
    and "req_method r2 = ''GET''" and "req_path r2 = ''/health''"
  shows "fst (handle_request (route_table nm) r1 s1) = fst (handle_request (route_table nm) r2 s2)
    \<and> fst (health_check s1) = fst (health_check s2)"
  using assms by (simp add: handle_get_health health_check_def)

theorem health_ignores_request_witness:
  "fst (handle_request (route_table ''routes'')
      \<lparr>req_method = ''GET'', req_path = ''/health'', req_args = [(''user'', ''alice'')],
        req_headers = [(''Authorization'', ''Bearer t1'')], req_body = ''one''\<rparr> (1::nat))
   = fst (handle_request (route_table ''routes'')
      \<lparr>req_method = ''GET'', req_path = ''/health'', req_args = [(''user'', ''bob'')],
        req_headers = [(''Cookie'', ''k=v'')], req_body = ''two''\<rparr> (2::nat))"
  using health_ignores_request [of
      "\<lparr>req_method = ''GET'', req_path = ''/health'', req_args = [(''user'', ''alice'')],
        req_headers = [(''Authorization'', ''Bearer t1'')], req_body = ''one''\<rparr>"
      "\<lparr>req_method = ''GET'', req_path = ''/health'', req_args = [(''user'', ''bob'')],
        req_headers = [(''Cookie'', ''k=v'')], req_body = ''two''\<rparr>" "''routes''" "1::nat" "2::nat"]
  by simp

subsection \<open>The handler\<close>

text \<open>
  C7. The handler cannot fail: in every state \<^verbatim>\<open>health_check\<close> returns its dictionary, it
  never raises, and it leaves the state (the trace of input and output included) as it was.
\<close>

theorem health_check_returns:
  "fst (health_check s) = Inr (PyDict [(''status'', PyStr ''Backend Case Study API Running'')])
   \<and> (\<forall>e. fst (health_check s) \<noteq> Inl e)
   \<and> snd (health_check s) = s"
  by (simp add: health_check_def)

text \<open>
  C8. A call of \<^verbatim>\<open>health_check\<close> has no side effect: the state after the call is the state
  before it, so every observation \<open>obs\<close> of the state gives the same result before and after,
  and the mapping returned is the same constant in every state.
\<close>

theorem health_check_no_effect:
  "snd (health_check s) = s
   \<and> obs (snd (health_check s)) = obs s
   \<and> fst (health_check s) = fst (health_check s')"
  by (simp add: health_check_def)

subsection \<open>The rules of the blueprint\<close>

text \<open>
  C9. The blueprint \<^verbatim>\<open>api_routes\<close> records exactly one rule, the one for \<^verbatim>\<open>/health\<close>, and
  its route table has exactly one entry, for that path.
\<close>

theorem one_route:
  "map rule (deferred (api_routes nm :: 's blueprint)) = [''/health'']
   \<and> length (route_table nm :: 's url_rule list) = 1
   \<and> map ur_rule (route_table nm :: 's url_rule list) = [''/health'']"
  by (simp add: route_table_eq) (simp add: api_routes_def route_def Blueprint_def)

text \<open>
  C10. The rule is the string \<^verbatim>\<open>/health\<close>, without a trailing slash: a \<^verbatim>\<open>GET\<close> request to
  \<^verbatim>\<open>/health/\<close> matches no rule, does not reach \<^verbatim>\<open>health_check\<close> and is answered with 404.
\<close>

theorem trailing_slash_not_found:
  assumes "req_method r = ''GET''" and "req_path r = ''/health/''"
  shows "map ur_rule (route_table nm :: 's url_rule list) = [''/health'']
    \<and> match_request (route_table nm :: 's url_rule list) r = NotFound
    \<and> called (fst (handle_request (route_table nm) r (s :: 's))) = []
    \<and> status (resp (fst (handle_request (route_table nm) r s))) = 404"
  using assms
  by (simp add: handle_request_def dispatch_route_table match_route_table error_response_def
      path_part_health)
    (simp add: route_table_eq)

theorem trailing_slash_not_found_witness:
  "match_request (route_table ''routes'')
      \<lparr>req_method = ''GET'', req_path = ''/health/'', req_args = [], req_headers = [],
        req_body = []\<rparr> = (NotFound :: nat matched)
   \<and> called (fst (handle_request (route_table ''routes'')
      \<lparr>req_method = ''GET'', req_path = ''/health/'', req_args = [], req_headers = [],
        req_body = []\<rparr> (0::nat))) = []
   \<and> status (resp (fst (handle_request (route_table ''routes'')
      \<lparr>req_method = ''GET'', req_path = ''/health/'', req_args = [], req_headers = [],
        req_body = []\<rparr> (0::nat)))) = 404"
  using trailing_slash_not_found [of "\<lparr>req_method = ''GET'', req_path = ''/health/'',
      req_args = [], req_headers = [], req_body = []\<rparr>" "''routes''" "0::nat"]
  by simp

end
